theory Spec2Isabelle
  imports Complex_Main "HOL-Library.Word" "HOL-Library.Monad_Syntax"
begin

unbundle bit_operations_syntax

section \<open>Strings (\<open>std::string\<close>)\<close>

text \<open>
  A \<open>std::string\<close> is a \<open>string\<close>; positions are \<open>nat\<close>, and a search that returns
  \<open>std::string::npos\<close> is \<open>None\<close>. \<open>std::isspace\<close> and \<open>std::isdigit\<close> are those of the
  C locale on ASCII characters.
\<close>

definition isspace :: "char \<Rightarrow> bool" where
  "isspace c = (c = CHR 0x20 \<or> c = CHR 0x09 \<or> c = CHR 0x0A \<or> c = CHR 0x0B
                \<or> c = CHR 0x0C \<or> c = CHR 0x0D)"

definition isdigit :: "char \<Rightarrow> bool" where
  "isdigit c = (c \<in> set ''0123456789'')"

fun starts_with :: "string \<Rightarrow> string \<Rightarrow> bool" where
  "starts_with [] s = True"
| "starts_with (n # ns) [] = False"
| "starts_with (n # ns) (c # cs) = (n = c \<and> starts_with ns cs)"

text \<open>\<open>s.find(needle)\<close>: the first position at which \<open>needle\<close> occurs.\<close>

fun str_find :: "string \<Rightarrow> string \<Rightarrow> nat option" where
  "str_find [] needle = (if needle = [] then Some 0 else None)"
| "str_find (c # cs) needle =
     (if starts_with needle (c # cs) then Some 0 else map_option Suc (str_find cs needle))"

text \<open>\<open>s.find(ch, pos)\<close>: the first position from \<open>pos\<close> on that holds \<open>ch\<close>.\<close>

definition str_find_char :: "string \<Rightarrow> char \<Rightarrow> nat \<Rightarrow> nat option" where
  "str_find_char s ch pos =
     (let i = pos + length (takeWhile (\<lambda>c. c \<noteq> ch) (drop pos s))
      in if i < length s then Some i else None)"

text \<open>\<open>s.substr(pos, n)\<close> for \<open>pos \<le> s.size()\<close>.\<close>

definition substr :: "string \<Rightarrow> nat \<Rightarrow> nat \<Rightarrow> string" where
  "substr s pos n = take n (drop pos s)"

text \<open>The loop \<open>while (pos < s.size() && P(s[pos])) ++pos;\<close> returns the new \<open>pos\<close>.\<close>

definition skip_while :: "(char \<Rightarrow> bool) \<Rightarrow> string \<Rightarrow> nat \<Rightarrow> nat" where
  "skip_while P s pos = pos + length (takeWhile P (drop pos s))"


section \<open>Telemetry fan-out: \<open>IpcServer::send\<close> (controller/src/ipc_server.cpp)\<close>








subsection \<open>The per-connection loop \<open>IpcServer::handleClient\<close>\<close>

text \<open>
  The server hands every complete, non-empty line (a trailing carriage return removed)
  to \<open>messageCallback_\<close>, a \<open>std::function<void(const std::string&)>\<close>. The callback
  returns nothing to the server; its effect is a step \<open>cb\<close> on a state of its own.
  \<open>deliver_lines\<close> is the inner loop over \<open>lineBuffer\<close>; it returns the callback's state
  and the incomplete rest of the buffer.
\<close>

function deliver_lines :: "('s \<Rightarrow> string \<Rightarrow> 's) \<Rightarrow> 's \<Rightarrow> string \<Rightarrow> 's \<times> string" where
  "deliver_lines cb s lineBuffer =
     (case str_find_char lineBuffer CHR 0x0A 0 of
        None \<Rightarrow> (s, lineBuffer)
      | Some pos \<Rightarrow>
         (let message = substr lineBuffer 0 pos;
              rest = drop (pos + 1) lineBuffer;
              s1 = (if message \<noteq> [] then
                      (let message1 = (if last message = CHR 0x0D then butlast message
                                       else message)
                       in if message1 \<noteq> [] then cb s message1 else s)
                    else s)
          in deliver_lines cb s1 rest))"
  by pat_completeness auto
termination
  by (relation "measure (\<lambda>(cb, s, lineBuffer). length lineBuffer)")
    (auto simp: str_find_char_def Let_def split: if_splits)

declare deliver_lines.simps [simp del]

text \<open>
  The outer loop over the buffers \<open>recv\<close> fills (the list ends when \<open>recv\<close> returns 0 or
  fails, or when the server is stopped); it leaves only then, whatever the callback did
  with the lines.
\<close>

fun IpcServer_handleClient :: "('s \<Rightarrow> string \<Rightarrow> 's) \<Rightarrow> 's \<Rightarrow> string \<Rightarrow> string list \<Rightarrow> 's" where
  "IpcServer_handleClient cb s lineBuffer [] = s"
| "IpcServer_handleClient cb s lineBuffer (buffer # chunks) =
     (let (s1, rest) = deliver_lines cb s (lineBuffer @ takeWhile (\<lambda>c. c \<noteq> CHR 0x00) buffer)
      in IpcServer_handleClient cb s1 rest chunks)"

section \<open>Binary telemetry frame (controller/src/controller.h, controller.cpp)\<close>






definition INT16_MAX :: "16 word" where "INT16_MAX = 0x7FFF"


text \<open>
  \<open>static_cast<int16_t>(x)\<close> of a floating-point \<open>x\<close> drops the fraction; when the
  result does not fit the target type the behaviour is undefined, which is \<open>None\<close> here.
\<close>

definition truncate_toward_zero :: "real \<Rightarrow> int" where
  "truncate_toward_zero x = (if 0 \<le> x then \<lfloor>x\<rfloor> else \<lceil>x\<rceil>)"

definition static_cast_int16 :: "real \<Rightarrow> 16 word option" where
  "static_cast_int16 x =
     (let t = truncate_toward_zero x
      in if - 32768 \<le> t \<and> t \<le> 32767 then Some (word_of_int t) else None)"









section \<open>Shared wire codec (shared/include/ipc_protocol.hpp, json_utils.hpp)\<close>

definition PROTOCOL_VERSION :: string where "PROTOCOL_VERSION = ''v0''"

definition MessageType_GET_TELEMETRY :: string where
  "MessageType_GET_TELEMETRY = ''get_telemetry''"
definition MessageType_SET_MODE :: string where
  "MessageType_SET_MODE = ''set_mode''"
definition MessageType_SET_TARGETS :: string where
  "MessageType_SET_TARGETS = ''set_targets''"
definition MessageType_TELEMETRY :: string where
  "MessageType_TELEMETRY = ''telemetry''"
definition MessageType_ACK :: string where
  "MessageType_ACK = ''ack''"

definition Mode_IDLE :: string where "Mode_IDLE = ''IDLE''"
definition Mode_ACTIVE :: string where "Mode_ACTIVE = ''ACTIVE''"

definition AckStatus_OK :: string where "AckStatus_OK = ''ok''"
definition AckStatus_ERROR :: string where "AckStatus_ERROR = ''error''"

record SetModePayload =
  sm_mode :: string

record SetTargetsPayload =
  st_target_abv :: "real option"
  st_target_flow :: "real option"

record AckPayload =
  ack_command :: string
  ack_status :: string
  ack_message :: "string option"

record Message =
  msg_version :: string
  msg_type :: string
  payload_json :: string

subsection \<open>Serialisation\<close>

definition hex_digit :: "nat \<Rightarrow> char" where
  "hex_digit n = ''0123456789abcdef'' ! (n mod 16)"

text \<open>
  One step of the loop of \<open>escape_json_string\<close>. The test \<open>c < 0x20\<close> is taken on the
  character's code, as it is for every ASCII character; the format \<open>\u%04x\<close> prints four
  hexadecimal digits.
\<close>

definition escape_char :: "char \<Rightarrow> string" where
  "escape_char c =
     (if c = CHR 0x22 then [CHR 0x5C, CHR 0x22]
      else if c = CHR 0x5C then [CHR 0x5C, CHR 0x5C]
      else if c = CHR 0x08 then [CHR 0x5C, CHR ''b'']
      else if c = CHR 0x0C then [CHR 0x5C, CHR ''f'']
      else if c = CHR 0x0A then [CHR 0x5C, CHR ''n'']
      else if c = CHR 0x0D then [CHR 0x5C, CHR ''r'']
      else if c = CHR 0x09 then [CHR 0x5C, CHR ''t'']
      else if (of_char c :: nat) < 0x20
        then [CHR 0x5C, CHR ''u'', CHR ''0'', CHR ''0'',
              hex_digit (of_char c div 16), hex_digit (of_char c)]
      else [c])"

definition escape_json_string :: "string \<Rightarrow> string" where
  "escape_json_string input = concat (map escape_char input)"


definition serialize_message :: "string \<Rightarrow> string \<Rightarrow> string" where
  \<open>serialize_message type payload =
     ''{'' @ ''"version":"'' @ PROTOCOL_VERSION @ ''",''
     @ ''"type":"'' @ escape_json_string type @ ''",''
     @ ''"payload":'' @ payload
     @ ''}'' @ [CHR 0x0A]\<close>


subsection \<open>Field extraction\<close>

text \<open>
  The three scanning loops of \<open>extract_json_field\<close>. \<open>backslash_count\<close> walks back from
  the character before a quote; \<open>find_end_quote\<close> walks forward to the first quote that
  an even number of backslashes precedes; \<open>object_end\<close> counts braces.
\<close>

function backslash_count :: "string \<Rightarrow> nat \<Rightarrow> nat \<Rightarrow> nat" where
  "backslash_count json value_start check_pos =
     (if check_pos \<ge> value_start \<and> json ! check_pos = CHR 0x5C
      then (if check_pos = 0 then 1
            else 1 + backslash_count json value_start (check_pos - 1))
      else 0)"
  by pat_completeness auto
termination
  by (relation "measure (\<lambda>(json, value_start, check_pos). check_pos)") auto

declare backslash_count.simps [simp del]

function find_end_quote :: "string \<Rightarrow> nat \<Rightarrow> nat \<Rightarrow> nat option" where
  "find_end_quote json value_start end_quote =
     (if end_quote < length json
      then (if json ! end_quote = CHR 0x22
               \<and> backslash_count json value_start (end_quote - 1) mod 2 = 0
            then Some end_quote
            else find_end_quote json value_start (end_quote + 1))
      else None)"
  by pat_completeness auto
termination
  by (relation "measure (\<lambda>(json, value_start, end_quote). length json - end_quote)") auto

declare find_end_quote.simps [simp del]

function object_end :: "string \<Rightarrow> int \<Rightarrow> nat \<Rightarrow> nat" where
  "object_end json brace_count end_pos =
     (if end_pos < length json \<and> brace_count > 0
      then object_end json
             (if json ! end_pos = CHR ''{'' then brace_count + 1
              else if json ! end_pos = CHR ''}'' then brace_count - 1
              else brace_count)
             (end_pos + 1)
      else end_pos)"
  by pat_completeness auto
termination
  by (relation "measure (\<lambda>(json, brace_count, end_pos). length json - end_pos)") auto

declare object_end.simps [simp del]

definition extract_json_field :: "string \<Rightarrow> string \<Rightarrow> string option" where
  \<open>extract_json_field json field =
     (case str_find json (''"'' @ field @ ''"'') of
        None \<Rightarrow> None
      | Some pos \<Rightarrow>
         (case str_find_char json CHR '':'' pos of
            None \<Rightarrow> None
          | Some colon_pos \<Rightarrow>
             (let value_start = skip_while isspace json (colon_pos + 1)
              in if value_start \<ge> length json then None
                 else if json ! value_start = CHR 0x22 then
                   (case find_end_quote json value_start (value_start + 1) of
                      Some end_quote \<Rightarrow>
                        Some (substr json (value_start + 1) (end_quote - value_start - 1))
                    | None \<Rightarrow> None)
                 else if json ! value_start = CHR ''{'' then
                   Some (substr json value_start
                          (object_end json 1 (value_start + 1) - value_start))
                 else
                   Some (substr json value_start
                          (skip_while (\<lambda>c. c \<noteq> CHR '','' \<and> c \<noteq> CHR ''}'' \<and> c \<noteq> CHR '']''
                                            \<and> \<not> isspace c) json value_start
                           - value_start)))))\<close>

definition parse_message :: "string \<Rightarrow> Message option" where
  "parse_message json =
     (case extract_json_field json ''version'' of
        None \<Rightarrow> None
      | Some version \<Rightarrow>
         (case extract_json_field json ''type'' of
            None \<Rightarrow> None
          | Some type \<Rightarrow>
             (case extract_json_field json ''payload'' of
                None \<Rightarrow> None
              | Some payload \<Rightarrow>
                 Some \<lparr> msg_version = version, msg_type = type, payload_json = payload \<rparr>)))"

text \<open>
  \<open>std::stod\<close> belongs to the C++ library and is a parameter: \<open>stod s\<close> is \<open>Inr\<close> of
  the number read from \<open>s\<close>, or \<open>Inl\<close> of the exception it throws. A \<open>double\<close> is a
  \<open>real\<close> here (the handlers only store and compare the numbers).
\<close>

datatype cpp_exception = runtime_error string | invalid_argument string | out_of_range string

fun what :: "cpp_exception \<Rightarrow> string" where
  "what (runtime_error m) = m"
| "what (invalid_argument m) = m"
| "what (out_of_range m) = m"

type_synonym stod_fn = "string \<Rightarrow> cpp_exception + real"

definition extract_optional_double :: "stod_fn \<Rightarrow> string \<Rightarrow> string \<Rightarrow> real option" where
  "extract_optional_double stod json field =
     (case extract_json_field json field of
        None \<Rightarrow> None
      | Some value_str \<Rightarrow> (case stod value_str of Inr d \<Rightarrow> Some d | Inl e \<Rightarrow> None))"

definition parse_set_mode :: "string \<Rightarrow> SetModePayload option" where
  "parse_set_mode payload =
     (case extract_json_field payload ''mode'' of
        None \<Rightarrow> None
      | Some mode \<Rightarrow> Some \<lparr> sm_mode = mode \<rparr>)"

definition parse_set_targets :: "stod_fn \<Rightarrow> string \<Rightarrow> SetTargetsPayload option" where
  "parse_set_targets stod payload =
     Some \<lparr> st_target_abv = extract_optional_double stod payload ''target_abv'',
            st_target_flow = extract_optional_double stod payload ''target_flow'' \<rparr>"

subsection \<open>Payloads the decoder can delimit\<close>

text \<open>
  \<open>extract_json_field\<close> finds the end of an object by counting braces, whether or not
  they stand inside a string. \<open>brace_balanced p\<close> says that the text \<open>p\<close> starts with an
  opening brace and that this count returns to zero at the last character of \<open>p\<close> and
  not before.
\<close>

fun closes_at_end :: "nat \<Rightarrow> string \<Rightarrow> bool" where
  "closes_at_end depth [] = False"
| "closes_at_end depth (c # cs) =
     (let d = (if c = CHR ''{'' then depth + 1
               else if c = CHR ''}'' then depth - 1
               else depth)
      in if d = 0 then cs = [] else closes_at_end d cs)"

definition brace_balanced :: "string \<Rightarrow> bool" where
  "brace_balanced p = (case p of [] \<Rightarrow> False | c # cs \<Rightarrow> c = CHR ''{'' \<and> closes_at_end 1 cs)"

section \<open>The socket server's dispatcher (controller/main.cpp)\<close>

text \<open>
  \<open>ServerState\<close> is the struct \<open>ControllerState\<close> of main.cpp: the mode as a string and
  the two targets (its \<open>running\<close> flag, which nothing in the file clears, is left out).
  What \<open>process_command\<close> passes to \<open>send_message\<close> is a value of \<open>sent\<close>: an ack, whose
  text on the wire is \<open>create_ack_message\<close>, or a telemetry snapshot, whose text is
  \<open>create_telemetry_message\<close> (it prints floating-point numbers and is not modelled).
\<close>

record ServerState =
  srv_mode :: string
  srv_target_abv :: real
  srv_target_flow :: real

definition ServerState_initial :: ServerState where
  "ServerState_initial =
     \<lparr> srv_mode = Mode_IDLE, srv_target_abv = 92, srv_target_flow = 250 \<rparr>"

record TelemetryPayload =
  tp_timestamp_ms :: int
  tp_mode :: string
  tp_vapour_head :: "real option"
  tp_boiler_liquid :: "real option"
  tp_pcb_environment :: "real option"
  tp_ambient :: "real option"
  tp_vapour :: "real option"
  tp_flow_ml_min :: "real option"
  tp_reflux_control :: int
  tp_product_takeoff :: int
  tp_heater_1 :: int
  tp_heater_2 :: int
  tp_faults :: "string list"

text \<open>\<open>ControllerState::get_telemetry\<close>; \<open>now\<close> is the clock's \<open>get_timestamp_ms()\<close>.\<close>

definition get_telemetry :: "int \<Rightarrow> ServerState \<Rightarrow> TelemetryPayload" where
  "get_telemetry now state =
     \<lparr> tp_timestamp_ms = now, tp_mode = srv_mode state,
       tp_vapour_head = Some 78.2, tp_boiler_liquid = Some 91.5,
       tp_pcb_environment = Some 42.1,
       tp_ambient = Some 101.3, tp_vapour = None,
       tp_flow_ml_min = Some 240,
       tp_reflux_control = 65, tp_product_takeoff = 30,
       tp_heater_1 = 70, tp_heater_2 = 70,
       tp_faults = [] \<rparr>"

datatype sent = SentAck AckPayload | SentTelemetry TelemetryPayload

definition process_command :: "stod_fn \<Rightarrow> int \<Rightarrow> ServerState \<Rightarrow> Message
    \<Rightarrow> ServerState \<times> sent" where
  "process_command stod now state msg =
     (if msg_version msg \<noteq> PROTOCOL_VERSION then
        (state, SentAck \<lparr> ack_command = msg_type msg, ack_status = AckStatus_ERROR,
            ack_message = Some (''Unsupported protocol version: '' @ msg_version msg) \<rparr>)
      else if msg_type msg = MessageType_GET_TELEMETRY then
        (state, SentTelemetry (get_telemetry now state))
      else if msg_type msg = MessageType_SET_MODE then
        (case parse_set_mode (payload_json msg) of
           None \<Rightarrow>
             (state, SentAck \<lparr> ack_command = msg_type msg, ack_status = AckStatus_ERROR,
                 ack_message = Some ''Invalid set_mode payload'' \<rparr>)
         | Some payload \<Rightarrow>
             if sm_mode payload = Mode_IDLE \<or> sm_mode payload = Mode_ACTIVE then
               (state \<lparr> srv_mode := sm_mode payload \<rparr>,
                SentAck \<lparr> ack_command = msg_type msg, ack_status = AckStatus_OK,
                    ack_message = Some (''Mode set to '' @ sm_mode payload) \<rparr>)
             else
               (state, SentAck \<lparr> ack_command = msg_type msg, ack_status = AckStatus_ERROR,
                   ack_message = Some (''Invalid mode value: '' @ sm_mode payload) \<rparr>))
      else if msg_type msg = MessageType_SET_TARGETS then
        (case parse_set_targets stod (payload_json msg) of
           None \<Rightarrow>
             (state, SentAck \<lparr> ack_command = msg_type msg, ack_status = AckStatus_ERROR,
                 ack_message = Some ''Invalid set_targets payload'' \<rparr>)
         | Some payload \<Rightarrow>
             (let state1 = (case st_target_abv payload of
                              Some v \<Rightarrow> state \<lparr> srv_target_abv := v \<rparr>
                            | None \<Rightarrow> state);
                  state2 = (case st_target_flow payload of
                              Some v \<Rightarrow> state1 \<lparr> srv_target_flow := v \<rparr>
                            | None \<Rightarrow> state1)
              in (state2, SentAck \<lparr> ack_command = msg_type msg, ack_status = AckStatus_OK,
                      ack_message = Some ''Targets updated'' \<rparr>)))
      else
        (state, SentAck \<lparr> ack_command = msg_type msg, ack_status = AckStatus_ERROR,
            ack_message = Some (''Unknown command type: '' @ msg_type msg) \<rparr>))"

subsection \<open>The per-connection loop \<open>handle_client\<close>\<close>

text \<open>
  The inner loop takes the text before the first newline of \<open>incomplete_message\<close> as one
  message. A message that \<open>parse_message\<close> rejects ends the connection: the function
  closes the socket and returns. The result is the state, the responses sent, the
  unprocessed rest of the buffer, and whether the connection was closed for invalid
  JSON.
\<close>

function process_lines :: "stod_fn \<Rightarrow> int \<Rightarrow> ServerState \<Rightarrow> string
    \<Rightarrow> ServerState \<times> sent list \<times> string \<times> bool" where
  "process_lines stod now state incomplete_message =
     (case str_find_char incomplete_message CHR 0x0A 0 of
        None \<Rightarrow> (state, [], incomplete_message, False)
      | Some newline_pos \<Rightarrow>
         (let message_str = substr incomplete_message 0 newline_pos;
              rest = drop (newline_pos + 1) incomplete_message
          in case parse_message message_str of
               Some msg \<Rightarrow>
                 (let (state1, response) = process_command stod now state msg;
                      (state2, responses, rest2, invalid) = process_lines stod now state1 rest
                  in (state2, response # responses, rest2, invalid))
             | None \<Rightarrow> (state, [], rest, True)))"
  by pat_completeness auto
termination
  by (relation "measure (\<lambda>(stod, now, state, incomplete_message). length incomplete_message)")
    (auto simp: str_find_char_def Let_def split: if_splits)

declare process_lines.simps [simp del]

datatype connection_end = PeerClosed | InvalidJson

text \<open>
  The outer loop: \<open>chunks\<close> are the buffers \<open>recv\<close> fills, in order; when the list is
  exhausted \<open>recv\<close> returns 0 or fails. The buffer is appended as a C string, up to its
  first NUL.
\<close>

fun handle_client :: "stod_fn \<Rightarrow> int \<Rightarrow> ServerState \<Rightarrow> string \<Rightarrow> string list
    \<Rightarrow> ServerState \<times> sent list \<times> connection_end" where
  "handle_client stod now state incomplete_message [] = (state, [], PeerClosed)"
| "handle_client stod now state incomplete_message (buffer # chunks) =
     (let (state1, responses, rest, invalid) =
            process_lines stod now state
              (incomplete_message @ takeWhile (\<lambda>c. c \<noteq> CHR 0x00) buffer)
      in if invalid then (state1, responses, InvalidJson)
         else (let (state2, responses2, how) = handle_client stod now state1 rest chunks
               in (state2, responses @ responses2, how)))"

subsection \<open>Reference behaviour of a sequence of commands\<close>

text \<open>
  \<open>unlines\<close> is the text of a sequence of lines, each followed by a newline;
  \<open>answer_all\<close> is \<open>process_command\<close> applied to a sequence of messages in order, with the
  state threaded through: the final state and the responses.
\<close>

definition unlines :: "string list \<Rightarrow> string" where
  "unlines ls = concat (map (\<lambda>l. l @ [CHR 0x0A]) ls)"

fun answer_all :: "stod_fn \<Rightarrow> int \<Rightarrow> ServerState \<Rightarrow> Message list \<Rightarrow> ServerState \<times> sent list" where
  "answer_all stod now state [] = (state, [])"
| "answer_all stod now state (msg # msgs) =
     (let (state1, response) = process_command stod now state msg;
          (state2, responses) = answer_all stod now state1 msgs
      in (state2, response # responses))"

section \<open>Minimal JSON objects (controller/third_party/json/minimal_json.hpp)\<close>

text \<open>
  \<open>JsonObject\<close> wraps a \<open>std::map<std::string, std::string>\<close>. Its parser indexes the
  text with \<open>jsonStr[pos]\<close>: at \<open>pos = size\<close> that is the terminating NUL, beyond it the
  read is out of bounds (undefined behaviour), the outcome \<open>OutOfBounds\<close>.
\<close>

type_synonym JsonObject = "string \<rightharpoonup> string"

datatype 'a outcome = Returns 'a | Throws cpp_exception | OutOfBounds

definition char_at :: "string \<Rightarrow> nat \<Rightarrow> char" where
  "char_at s pos = (if pos < length s then s ! pos else CHR 0x00)"

text \<open>
  The value of one member, read at \<open>pos\<close> (at most the size of the text): a string up to
  the next quote, a run of digits, dots and minus signs, or one of the words \<open>true\<close> and
  \<open>false\<close>; anything else stores nothing and leaves \<open>pos\<close> where it is. The result is the
  object and the position after the value.
\<close>

definition parse_value :: "string \<Rightarrow> nat \<Rightarrow> string \<Rightarrow> JsonObject \<Rightarrow> JsonObject \<times> nat" where
  "parse_value jsonStr pos key obj =
     (if char_at jsonStr pos = CHR 0x22 then
        (let valueStart = pos + 1;
             pos1 = skip_while (\<lambda>c. c \<noteq> CHR 0x22) jsonStr valueStart
         in (obj(key \<mapsto> substr jsonStr valueStart (pos1 - valueStart)), pos1 + 1))
      else if isdigit (char_at jsonStr pos) \<or> char_at jsonStr pos = CHR ''-'' then
        (let pos1 = skip_while (\<lambda>c. isdigit c \<or> c = CHR ''.'' \<or> c = CHR ''-'') jsonStr pos
         in (obj(key \<mapsto> substr jsonStr pos (pos1 - pos)), pos1))
      else if substr jsonStr pos 4 = ''true'' then (obj(key \<mapsto> ''true''), pos + 4)
      else if substr jsonStr pos 5 = ''false'' then (obj(key \<mapsto> ''false''), pos + 5)
      else (obj, pos))"

text \<open>
  The \<open>while (pos < jsonStr.size())\<close> loop of \<open>JsonObject::parse\<close>: white space, a quoted
  key, white space and colons, the value, white space and commas.
\<close>

function parse_members :: "string \<Rightarrow> nat \<Rightarrow> JsonObject \<Rightarrow> JsonObject outcome" where
  "parse_members jsonStr pos obj =
     (if \<not> pos < length jsonStr then Returns obj
      else
        (let pos1 = skip_while isspace jsonStr pos
         in if pos1 \<ge> length jsonStr \<or> jsonStr ! pos1 = CHR ''}'' then Returns obj
            else if jsonStr ! pos1 \<noteq> CHR 0x22
              then Throws (runtime_error ''Invalid JSON: expected key'')
            else
              (let keyStart = pos1 + 1;
                   pos2 = skip_while (\<lambda>c. c \<noteq> CHR 0x22) jsonStr keyStart;
                   key = substr jsonStr keyStart (pos2 - keyStart);
                   pos3 = skip_while (\<lambda>c. isspace c \<or> c = CHR '':'') jsonStr (pos2 + 1)
               in if pos3 > length jsonStr then OutOfBounds
                  else
                    (let (obj1, pos4) = parse_value jsonStr pos3 key obj
                     in parse_members jsonStr
                          (skip_while (\<lambda>c. isspace c \<or> c = CHR '','') jsonStr pos4) obj1))))"
  by pat_completeness auto
termination
proof (relation "measure (\<lambda>(jsonStr, pos, obj). length jsonStr - pos)", goal_cases)
  case 1
  show ?case by simp
next
  case prems: (2 jsonStr pos obj x xa xb xc xd xe xf y)
  have "pos < xd"
    using prems(2,5,6,8) by (simp add: skip_while_def)
  moreover have "y = snd (parse_value jsonStr xd xc obj)"
    using prems(10,11) by (metis snd_conv)
  then have "xd \<le> y"
    by (simp add: parse_value_def skip_while_def Let_def)
  moreover have "y \<le> skip_while (\<lambda>c. isspace c \<or> c = CHR '','') jsonStr y"
    by (simp add: skip_while_def)
  moreover have "pos < length jsonStr"
    using prems(1) by simp
  ultimately show ?case
    by simp
qed

declare parse_members.simps [simp del]

definition JsonObject_parse :: "string \<Rightarrow> JsonObject outcome" where
  "JsonObject_parse jsonStr =
     (case str_find_char jsonStr CHR ''{'' 0 of
        None \<Rightarrow> Throws (runtime_error ''Invalid JSON: missing opening brace'')
      | Some pos \<Rightarrow> parse_members jsonStr (pos + 1) Map.empty)"

definition has :: "JsonObject \<Rightarrow> string \<Rightarrow> bool" where
  "has obj key = (obj key \<noteq> None)"

definition getString :: "JsonObject \<Rightarrow> string \<Rightarrow> string" where
  "getString obj key = (case obj key of Some v \<Rightarrow> v | None \<Rightarrow> [])"

definition getNumber :: "stod_fn \<Rightarrow> JsonObject \<Rightarrow> string \<Rightarrow> cpp_exception + real" where
  "getNumber stod obj key = (case obj key of Some v \<Rightarrow> stod v | None \<Rightarrow> Inr 0)"

section \<open>The protocol handler \<open>IPCProtocol\<close> (controller/src/ipc_protocol.h, ipc_protocol.cpp)\<close>

datatype Mode = IDLE | ACTIVE

record ControllerState =
  cs_mode :: Mode
  cs_target_abv :: real
  cs_target_flow :: real

definition ControllerState_initial :: ControllerState where
  "ControllerState_initial = \<lparr> cs_mode = IDLE, cs_target_abv = 0, cs_target_flow = 0 \<rparr>"

text \<open>
  Modelled from the spec: the bodies of \<open>create_ok_ack\<close> and \<open>create_error_ack\<close>, whose
  text in ipc_protocol.cpp (lines 118 to 152) is damaged. Their declarations
  (\<open>create_ok_ack()\<close>, \<open>create_error_ack(message)\<close>) and the surviving assignments give an
  envelope of type \<open>ack\<close> with status \<open>ok\<close>, or with status \<open>error\<close> and the message; the
  spec's ack schema has the same two fields. The response is kept as these two.
\<close>

record ack_response =
  response_status :: string
  response_message :: "string option"

definition create_ok_ack :: ack_response where
  "create_ok_ack = \<lparr> response_status = ''ok'', response_message = None \<rparr>"

definition create_error_ack :: "string \<Rightarrow> ack_response" where
  "create_error_ack message = \<lparr> response_status = ''error'', response_message = Some message \<rparr>"

definition handle_get_telemetry :: "ControllerState \<Rightarrow> JsonObject
    \<Rightarrow> ControllerState \<times> ack_response" where
  "handle_get_telemetry state msg = (state, create_ok_ack)"

definition handle_set_mode :: "ControllerState \<Rightarrow> JsonObject
    \<Rightarrow> ControllerState \<times> ack_response" where
  "handle_set_mode state msg =
     (if \<not> has msg ''mode'' then (state, create_error_ack ''Missing 'mode' field'')
      else
        (let mode_str = getString msg ''mode''
         in if mode_str = ''IDLE'' then (state \<lparr> cs_mode := IDLE \<rparr>, create_ok_ack)
            else if mode_str = ''ACTIVE'' then (state \<lparr> cs_mode := ACTIVE \<rparr>, create_ok_ack)
            else (state, create_error_ack (''Invalid mode: '' @ mode_str))))"

text \<open>
  Modelled from the spec: the guard of the range error of \<open>handle_set_targets\<close>. Line 104
  of ipc_protocol.cpp breaks off after \<open>msg.getNumber("target_flow")\<close> and resumes inside
  the message \<open>...abv out of range (0-100)\<close>; the condition between them is lost. The spec
  (4.2) has it: \<open>target_abv\<close> must lie in [0,100] inclusive. The comment on
  \<open>ControllerState::target_abv\<close> in ipc_protocol.h (\<open>0-100%\<close>) and the tests of
  controller/tests/test_ipc_protocol.cpp (0.0 and 100.0 accepted, -10.0 and 150.0
  rejected) agree with it.
\<close>

definition abv_out_of_range :: "real \<Rightarrow> bool" where
  "abv_out_of_range abv = (abv < 0 \<or> abv > 100)"

text \<open>
  \<open>handle_set_targets\<close>: both fields are required and read before any check; the state
  is assigned only after every check has passed. \<open>Inl\<close> is an exception of \<open>std::stod\<close>,
  which \<open>process_message\<close> catches.
\<close>

definition handle_set_targets :: "stod_fn \<Rightarrow> ControllerState \<Rightarrow> JsonObject
    \<Rightarrow> cpp_exception + ControllerState \<times> ack_response" where
  "handle_set_targets stod state msg =
     (if \<not> has msg ''target_abv''
        then Inr (state, create_error_ack ''Missing 'target_abv' field'')
      else if \<not> has msg ''target_flow''
        then Inr (state, create_error_ack ''Missing 'target_flow' field'')
      else
        (case getNumber stod msg ''target_abv'' of
           Inl e \<Rightarrow> Inl e
         | Inr abv \<Rightarrow>
            (case getNumber stod msg ''target_flow'' of
               Inl e \<Rightarrow> Inl e
             | Inr flow \<Rightarrow>
                if abv_out_of_range abv
                  then Inr (state, create_error_ack ''target_abv out of range (0-100)'')
                else if flow < 0
                  then Inr (state, create_error_ack ''target_flow cannot be negative'')
                else Inr (state \<lparr> cs_target_abv := abv, cs_target_flow := flow \<rparr>,
                          create_ok_ack))))"

text \<open>
  \<open>process_message\<close> with its \<open>try\<close>/\<open>catch (const std::exception&)\<close>. The result is
  \<open>None\<close> when the parser reads out of bounds; otherwise the state after the call and
  the response.
\<close>

definition process_message :: "stod_fn \<Rightarrow> ControllerState \<Rightarrow> string
    \<Rightarrow> (ControllerState \<times> ack_response) option" where
  "process_message stod state line =
     (case JsonObject_parse line of
        OutOfBounds \<Rightarrow> None
      | Throws e \<Rightarrow> Some (state, create_error_ack (''Error: '' @ what e))
      | Returns msg \<Rightarrow>
         if \<not> has msg ''version''
           then Some (state, create_error_ack ''Missing 'version' field'')
         else
           (let version = getString msg ''version''
            in if version \<noteq> ''v0''
                 then Some (state, create_error_ack (''Unknown version: '' @ version))
               else if \<not> has msg ''type''
                 then Some (state, create_error_ack ''Missing 'type' field'')
               else
                 (let type = getString msg ''type''
                  in if type = ''get_telemetry'' then Some (handle_get_telemetry state msg)
                     else if type = ''set_mode'' then Some (handle_set_mode state msg)
                     else if type = ''set_targets'' then
                       (case handle_set_targets stod state msg of
                          Inl e \<Rightarrow> Some (state, create_error_ack (''Error: '' @ what e))
                        | Inr r \<Rightarrow> Some r)
                     else Some (state,
                                create_error_ack (''Unknown message type: '' @ type)))))"




section \<open>Sample inputs\<close>

text \<open>What \<open>std::stod\<close> returns for the numerals of the examples; it throws on other text.\<close>

definition sample_stod :: stod_fn where
  "sample_stod s =
     (if s = ''150.0'' then Inr 150
      else if s = ''-10.0'' then Inr (- 10)
      else if s = ''42.5'' then Inr 42.5
      else if s = ''1.5'' then Inr 1.5
      else if s = ''-1.0'' then Inr (- 1)
      else Inl (invalid_argument ''stod''))"

section \<open>Theorems\<close>

subsection \<open>Strings\<close>





subsection \<open>Setting the mode\<close>


lemma process_command_set_mode:
  assumes "msg_version c = PROTOCOL_VERSION" and "msg_type c = MessageType_SET_MODE"
    and "parse_set_mode (payload_json c) = Some \<lparr> sm_mode = m \<rparr>"
  shows "process_command stod now s c =
     (if m = Mode_IDLE \<or> m = Mode_ACTIVE
      then (s \<lparr> srv_mode := m \<rparr>,
            SentAck \<lparr> ack_command = MessageType_SET_MODE, ack_status = AckStatus_OK,
                ack_message = Some (''Mode set to '' @ m) \<rparr>)
      else (s, SentAck \<lparr> ack_command = MessageType_SET_MODE, ack_status = AckStatus_ERROR,
                ack_message = Some (''Invalid mode value: '' @ m) \<rparr>))"
  using assms
  by (simp add: process_command_def MessageType_SET_MODE_def MessageType_GET_TELEMETRY_def)



subsection \<open>Setting the targets\<close>













subsection \<open>Round trip through the shared codec\<close>

lemma find_end_quote_step:
  "end_quote < length json \<Longrightarrow> json ! end_quote \<noteq> CHR 0x22 \<Longrightarrow>
   find_end_quote json vs end_quote = find_end_quote json vs (end_quote + 1)"
  by (subst find_end_quote.simps) simp

lemma find_end_quote_stop:
  "end_quote < length json \<Longrightarrow> json ! end_quote = CHR 0x22 \<Longrightarrow>
   json ! (end_quote - 1) \<noteq> CHR 0x5C \<Longrightarrow>
   find_end_quote json vs end_quote = Some end_quote"
  by (subst find_end_quote.simps, subst backslash_count.simps) simp

lemmas extract_simps = extract_json_field_def str_find_char_def skip_while_def isspace_def
  substr_def find_end_quote_step find_end_quote_stop Let_def

lemma extract_version:
  \<open>extract_json_field (''{"version":"v0",'' @ rest) ''version'' = Some ''v0''\<close>
  by (simp add: extract_simps)

lemma extract_type_get_telemetry:
  \<open>extract_json_field (''{"version":"v0","type":"get_telemetry",'' @ rest) ''type''
     = Some ''get_telemetry''\<close>
  by (simp add: extract_simps)

lemma extract_type_set_mode:
  \<open>extract_json_field (''{"version":"v0","type":"set_mode",'' @ rest) ''type''
     = Some ''set_mode''\<close>
  by (simp add: extract_simps)

lemma extract_type_set_targets:
  \<open>extract_json_field (''{"version":"v0","type":"set_targets",'' @ rest) ''type''
     = Some ''set_targets''\<close>
  by (simp add: extract_simps)

lemma extract_type_telemetry:
  \<open>extract_json_field (''{"version":"v0","type":"telemetry",'' @ rest) ''type''
     = Some ''telemetry''\<close>
  by (simp add: extract_simps)

lemma extract_type_ack:
  \<open>extract_json_field (''{"version":"v0","type":"ack",'' @ rest) ''type'' = Some ''ack''\<close>
  by (simp add: extract_simps)

lemma object_end_done: "object_end json 0 end_pos = end_pos"
  by (subst object_end.simps) simp

lemma object_end_closes:
  "closes_at_end d body \<Longrightarrow> 1 \<le> d \<Longrightarrow>
   object_end (pre @ body @ post) (int d) (length pre) = length pre + length body"
proof (induction body arbitrary: d pre)
  case Nil
  then show ?case by simp
next
  case (Cons c cs)
  let ?json = "pre @ (c # cs) @ post"
  let ?d = "if c = CHR ''{'' then d + 1 else if c = CHR ''}'' then d - 1 else d"
  have at: "?json ! length pre = c" by simp
  have count: "int ?d = (if c = CHR ''{'' then int d + 1
                         else if c = CHR ''}'' then int d - 1 else int d)"
    using Cons.prems(2) by simp
  have step: "object_end ?json (int d) (length pre)
      = object_end ?json (int ?d) (length pre + 1)"
    unfolding count using Cons.prems(2) by (subst object_end.simps) (simp add: at)
  show ?case
  proof (cases "?d = 0")
    case True
    then have "cs = []" using Cons.prems(1) by (simp add: Let_def)
    then show ?thesis using step True by (simp add: object_end_done)
  next
    case False
    then have c: "closes_at_end ?d cs" using Cons.prems(1) by (simp add: Let_def)
    have "object_end ((pre @ [c]) @ cs @ post) (int ?d) (length (pre @ [c]))
        = length (pre @ [c]) + length cs"
      using Cons.IH [OF c, of "pre @ [c]"] False by simp
    then show ?thesis using step by simp
  qed
qed

lemma extract_object_at:
  assumes "brace_balanced p"
    and pos: "str_find (pre @ p @ post) (CHR 0x22 # field @ [CHR 0x22]) = Some k"
    and colon: "str_find_char (pre @ p @ post) CHR '':'' k = Some (length pre - 1)"
    and "pre \<noteq> []"
  shows "extract_json_field (pre @ p @ post) field = Some p"
proof -
  obtain cs where p: "p = CHR ''{'' # cs" and c: "closes_at_end 1 cs"
    using assms(1) by (auto simp: brace_balanced_def split: list.splits)
  let ?json = "pre @ p @ post"
  have vs: "skip_while isspace ?json (length pre - 1 + 1) = length pre"
    using \<open>pre \<noteq> []\<close> by (simp add: skip_while_def p isspace_def)
  have at: "?json ! length pre = CHR ''{''"
    by (simp add: p)
  have "object_end ((pre @ [CHR ''{'']) @ cs @ post) (int 1) (length (pre @ [CHR ''{'']))
      = length (pre @ [CHR ''{'']) + length cs"
    by (rule object_end_closes [OF c]) simp
  then have oe: "object_end ?json 1 (length pre + 1) = length pre + length p"
    by (simp add: p)
  show ?thesis
    unfolding extract_json_field_def
    using pos colon vs at oe \<open>pre \<noteq> []\<close> by (simp add: Let_def substr_def p)
qed


lemma extract_payload_get_telemetry:
  assumes "brace_balanced p"
  shows \<open>extract_json_field (''{"version":"v0","type":"get_telemetry","payload":'' @ p @ post) ''payload''
     = Some p\<close>
proof (rule extract_object_at [OF assms])
  show \<open>str_find (''{"version":"v0","type":"get_telemetry","payload":'' @ p @ post)
      (CHR 0x22 # ''payload'' @ [CHR 0x22]) = Some 39\<close>
    by simp
  show \<open>str_find_char (''{"version":"v0","type":"get_telemetry","payload":'' @ p @ post) CHR '':'' 39
      = Some (length ''{"version":"v0","type":"get_telemetry","payload":'' - 1)\<close>
    by (simp add: str_find_char_def)
  show \<open>''{"version":"v0","type":"get_telemetry","payload":'' \<noteq> []\<close>
    by simp
qed

lemma roundtrip_get_telemetry:
  assumes "brace_balanced p"
  shows \<open>parse_message (''{"version":"v0","type":"get_telemetry","payload":'' @ p @ post)
     = Some \<lparr> msg_version = ''v0'', msg_type = ''get_telemetry'', payload_json = p \<rparr>\<close>
  using extract_version [of \<open>''"type":"get_telemetry","payload":'' @ p @ post\<close>]
    extract_type_get_telemetry [of \<open>''"payload":'' @ p @ post\<close>]
    extract_payload_get_telemetry [OF assms, of post]
  by (simp add: parse_message_def)

lemma extract_payload_set_mode:
  assumes "brace_balanced p"
  shows \<open>extract_json_field (''{"version":"v0","type":"set_mode","payload":'' @ p @ post) ''payload''
     = Some p\<close>
proof (rule extract_object_at [OF assms])
  show \<open>str_find (''{"version":"v0","type":"set_mode","payload":'' @ p @ post)
      (CHR 0x22 # ''payload'' @ [CHR 0x22]) = Some 34\<close>
    by simp
  show \<open>str_find_char (''{"version":"v0","type":"set_mode","payload":'' @ p @ post) CHR '':'' 34
      = Some (length ''{"version":"v0","type":"set_mode","payload":'' - 1)\<close>
    by (simp add: str_find_char_def)
  show \<open>''{"version":"v0","type":"set_mode","payload":'' \<noteq> []\<close>
    by simp
qed

lemma roundtrip_set_mode:
  assumes "brace_balanced p"
  shows \<open>parse_message (''{"version":"v0","type":"set_mode","payload":'' @ p @ post)
     = Some \<lparr> msg_version = ''v0'', msg_type = ''set_mode'', payload_json = p \<rparr>\<close>
  using extract_version [of \<open>''"type":"set_mode","payload":'' @ p @ post\<close>]
    extract_type_set_mode [of \<open>''"payload":'' @ p @ post\<close>]
    extract_payload_set_mode [OF assms, of post]
  by (simp add: parse_message_def)

lemma extract_payload_set_targets:
  assumes "brace_balanced p"
  shows \<open>extract_json_field (''{"version":"v0","type":"set_targets","payload":'' @ p @ post) ''payload''
     = Some p\<close>
proof (rule extract_object_at [OF assms])
  show \<open>str_find (''{"version":"v0","type":"set_targets","payload":'' @ p @ post)
      (CHR 0x22 # ''payload'' @ [CHR 0x22]) = Some 37\<close>
    by simp
  show \<open>str_find_char (''{"version":"v0","type":"set_targets","payload":'' @ p @ post) CHR '':'' 37
      = Some (length ''{"version":"v0","type":"set_targets","payload":'' - 1)\<close>
    by (simp add: str_find_char_def)
  show \<open>''{"version":"v0","type":"set_targets","payload":'' \<noteq> []\<close>
    by simp
qed

lemma roundtrip_set_targets:
  assumes "brace_balanced p"
  shows \<open>parse_message (''{"version":"v0","type":"set_targets","payload":'' @ p @ post)
     = Some \<lparr> msg_version = ''v0'', msg_type = ''set_targets'', payload_json = p \<rparr>\<close>
  using extract_version [of \<open>''"type":"set_targets","payload":'' @ p @ post\<close>]
    extract_type_set_targets [of \<open>''"payload":'' @ p @ post\<close>]
    extract_payload_set_targets [OF assms, of post]
  by (simp add: parse_message_def)

lemma extract_payload_telemetry:
  assumes "brace_balanced p"
  shows \<open>extract_json_field (''{"version":"v0","type":"telemetry","payload":'' @ p @ post) ''payload''
     = Some p\<close>
proof (rule extract_object_at [OF assms])
  show \<open>str_find (''{"version":"v0","type":"telemetry","payload":'' @ p @ post)
      (CHR 0x22 # ''payload'' @ [CHR 0x22]) = Some 35\<close>
    by simp
  show \<open>str_find_char (''{"version":"v0","type":"telemetry","payload":'' @ p @ post) CHR '':'' 35
      = Some (length ''{"version":"v0","type":"telemetry","payload":'' - 1)\<close>
    by (simp add: str_find_char_def)
  show \<open>''{"version":"v0","type":"telemetry","payload":'' \<noteq> []\<close>
    by simp
qed

lemma roundtrip_telemetry:
  assumes "brace_balanced p"
  shows \<open>parse_message (''{"version":"v0","type":"telemetry","payload":'' @ p @ post)
     = Some \<lparr> msg_version = ''v0'', msg_type = ''telemetry'', payload_json = p \<rparr>\<close>
  using extract_version [of \<open>''"type":"telemetry","payload":'' @ p @ post\<close>]
    extract_type_telemetry [of \<open>''"payload":'' @ p @ post\<close>]
    extract_payload_telemetry [OF assms, of post]
  by (simp add: parse_message_def)

lemma extract_payload_ack:
  assumes "brace_balanced p"
  shows \<open>extract_json_field (''{"version":"v0","type":"ack","payload":'' @ p @ post) ''payload''
     = Some p\<close>
proof (rule extract_object_at [OF assms])
  show \<open>str_find (''{"version":"v0","type":"ack","payload":'' @ p @ post)
      (CHR 0x22 # ''payload'' @ [CHR 0x22]) = Some 29\<close>
    by simp
  show \<open>str_find_char (''{"version":"v0","type":"ack","payload":'' @ p @ post) CHR '':'' 29
      = Some (length ''{"version":"v0","type":"ack","payload":'' - 1)\<close>
    by (simp add: str_find_char_def)
  show \<open>''{"version":"v0","type":"ack","payload":'' \<noteq> []\<close>
    by simp
qed

lemma roundtrip_ack:
  assumes "brace_balanced p"
  shows \<open>parse_message (''{"version":"v0","type":"ack","payload":'' @ p @ post)
     = Some \<lparr> msg_version = ''v0'', msg_type = ''ack'', payload_json = p \<rparr>\<close>
  using extract_version [of \<open>''"type":"ack","payload":'' @ p @ post\<close>]
    extract_type_ack [of \<open>''"payload":'' @ p @ post\<close>]
    extract_payload_ack [OF assms, of post]
  by (simp add: parse_message_def)


lemma flat_object_balanced:
  assumes "CHR ''{'' \<notin> set body" and "CHR ''}'' \<notin> set body"
  shows "brace_balanced (''{'' @ body @ ''}'')"
proof -
  have "closes_at_end 1 (body @ ''}'')"
    using assms by (induction body) (auto simp: Let_def)
  then show ?thesis by (simp add: brace_balanced_def)
qed

text \<open>
  A payload with a closing brace inside a string: the decoder cuts it at that brace.
\<close>

theorem C4_counterexample:
  \<open>parse_message (serialize_message ''ack'' ''{"k":"}"}'')
     = Some \<lparr> msg_version = ''v0'', msg_type = ''ack'', payload_json = ''{"k":"}'' \<rparr>
   \<and> ''{"k":"}'' \<noteq> ''{"k":"}"}''\<close>
proof -
  have \<open>parse_message (serialize_message ''ack'' ''{"k":"}"}'')
     = Some \<lparr> msg_version = ''v0'', msg_type = ''ack'', payload_json = ''{"k":"}'' \<rparr>\<close>
    by code_simp
  then show ?thesis by simp
qed

text \<open>
  Claim C4, as amended. For each of the five message types of the protocol and every
  payload \<open>p\<close> that is brace-balanced (it starts with an opening brace, and counting
  every brace of the text, those inside strings too, the count returns to zero at its
  last character and not before), decoding the line that \<open>serialize_message\<close> produces
  gives version \<open>v0\<close>, the type and exactly \<open>p\<close>; the same holds for the line without
  its final newline, as the connection loop passes it to the decoder.
\<close>

theorem C4_roundtrip:
  \<open>t \<in> {MessageType_GET_TELEMETRY, MessageType_SET_MODE, MessageType_SET_TARGETS,
          MessageType_TELEMETRY, MessageType_ACK}
   \<and> brace_balanced p \<longrightarrow>
     parse_message (serialize_message t p)
       = Some \<lparr> msg_version = PROTOCOL_VERSION, msg_type = t, payload_json = p \<rparr>
     \<and> parse_message (butlast (serialize_message t p))
       = Some \<lparr> msg_version = PROTOCOL_VERSION, msg_type = t, payload_json = p \<rparr>\<close>
proof (intro impI, elim conjE)
  assume t: \<open>t \<in> {MessageType_GET_TELEMETRY, MessageType_SET_MODE, MessageType_SET_TARGETS,
          MessageType_TELEMETRY, MessageType_ACK}\<close>
    and p: "brace_balanced p"
  have line: \<open>serialize_message t p
      = ''{"version":"v0","type":"'' @ t @ ''","payload":'' @ p @ (''}'' @ [CHR 0x0A])\<close>
    using t
    by (auto simp: serialize_message_def PROTOCOL_VERSION_def escape_json_string_def
        escape_char_def MessageType_GET_TELEMETRY_def MessageType_SET_MODE_def
        MessageType_SET_TARGETS_def MessageType_TELEMETRY_def MessageType_ACK_def)
  have short: \<open>butlast (serialize_message t p)
      = ''{"version":"v0","type":"'' @ t @ ''","payload":'' @ p @ ''}''\<close>
    by (simp add: line butlast_append)
  have any: \<open>parse_message (''{"version":"v0","type":"'' @ t @ ''","payload":'' @ p @ post)
      = Some \<lparr> msg_version = PROTOCOL_VERSION, msg_type = t, payload_json = p \<rparr>\<close> for post
    using t roundtrip_get_telemetry [OF p, of post] roundtrip_set_mode [OF p, of post]
      roundtrip_set_targets [OF p, of post] roundtrip_telemetry [OF p, of post]
      roundtrip_ack [OF p, of post]
    by (auto simp: PROTOCOL_VERSION_def MessageType_GET_TELEMETRY_def MessageType_SET_MODE_def
        MessageType_SET_TARGETS_def MessageType_TELEMETRY_def MessageType_ACK_def)
  have whole: \<open>parse_message (serialize_message t p)
       = Some \<lparr> msg_version = PROTOCOL_VERSION, msg_type = t, payload_json = p \<rparr>\<close>
    by (subst line) (rule any)
  have stripped: \<open>parse_message (butlast (serialize_message t p))
       = Some \<lparr> msg_version = PROTOCOL_VERSION, msg_type = t, payload_json = p \<rparr>\<close>
    by (subst short) (rule any)
  show \<open>parse_message (serialize_message t p)
       = Some \<lparr> msg_version = PROTOCOL_VERSION, msg_type = t, payload_json = p \<rparr>
     \<and> parse_message (butlast (serialize_message t p))
       = Some \<lparr> msg_version = PROTOCOL_VERSION, msg_type = t, payload_json = p \<rparr>\<close>
    using whole stripped by (rule conjI)
qed

theorem C4_roundtrip_witness:
  \<open>brace_balanced ''{"mode":"ACTIVE"}''
   \<and> parse_message (serialize_message ''set_mode'' ''{"mode":"ACTIVE"}'')
     = Some \<lparr> msg_version = ''v0'', msg_type = ''set_mode'',
              payload_json = ''{"mode":"ACTIVE"}'' \<rparr>\<close>
proof -
  have b: \<open>brace_balanced ''{"mode":"ACTIVE"}''\<close>
    by (simp add: brace_balanced_def Let_def)
  show ?thesis
    using C4_roundtrip [of \<open>''set_mode''\<close> \<open>''{"mode":"ACTIVE"}''\<close>] b
    by (simp add: PROTOCOL_VERSION_def MessageType_SET_MODE_def)
qed

subsection \<open>The \<open>IPCProtocol\<close> dispatcher\<close>


























subsection \<open>The connection loops\<close>

lemma find_newline:
  assumes "CHR 0x0A \<notin> set l"
  shows "str_find_char (l @ CHR 0x0A # rest) CHR 0x0A 0 = Some (length l)"
proof -
  have "takeWhile (\<lambda>c. c \<noteq> CHR 0x0A) (l @ CHR 0x0A # rest) = l"
    using assms by (induction l) auto
  then show ?thesis by (simp add: str_find_char_def)
qed

lemma process_lines_line:
  assumes "CHR 0x0A \<notin> set l"
  shows "process_lines stod now st (l @ CHR 0x0A # rest) =
     (case parse_message l of
        Some msg \<Rightarrow>
          (let (st1, response) = process_command stod now st msg;
               (st2, responses, rest2, invalid) = process_lines stod now st1 rest
           in (st2, response # responses, rest2, invalid))
      | None \<Rightarrow> (st, [], rest, True))"
  by (subst process_lines.simps) (simp add: find_newline [OF assms] substr_def)

lemma process_lines_until_invalid:
  assumes "list_all2 (\<lambda>l m. CHR 0x0A \<notin> set l \<and> parse_message l = Some m) gs ms"
    and "CHR 0x0A \<notin> set b" and "parse_message b = None"
  shows "process_lines stod now st (unlines gs @ b @ CHR 0x0A # rest)
     = (fst (answer_all stod now st ms), snd (answer_all stod now st ms), rest, True)"
  using assms(1)
proof (induction gs ms arbitrary: st rule: list_all2_induct)
  case Nil
  show ?case
    using process_lines_line [OF assms(2), of stod now st rest] assms(3)
    by (simp add: unlines_def)
next
  case (Cons l gs m ms)
  obtain st1 r where pc: "process_command stod now st m = (st1, r)"
    by (cases "process_command stod now st m")
  have "process_lines stod now st (l @ CHR 0x0A # (unlines gs @ b @ CHR 0x0A # rest))
      = (fst (answer_all stod now st1 ms), r # snd (answer_all stod now st1 ms), rest, True)"
    using Cons.hyps(1) Cons.IH [of st1] pc
    by (simp add: process_lines_line split: prod.splits)
  then show ?case
    using pc by (simp add: unlines_def split: prod.splits)
qed

lemma handle_client_until_invalid:
  assumes "list_all2 (\<lambda>l m. CHR 0x0A \<notin> set l \<and> parse_message l = Some m) gs ms"
    and "CHR 0x0A \<notin> set b" and "parse_message b = None"
    and "incomplete @ takeWhile (\<lambda>c. c \<noteq> CHR 0x00) buffer = unlines gs @ b @ CHR 0x0A # rest"
  shows "handle_client stod now st incomplete (buffer # chunks)
     = (fst (answer_all stod now st ms), snd (answer_all stod now st ms), InvalidJson)"
  using process_lines_until_invalid [OF assms(1,2,3), of stod now st rest] assms(4)
  by simp

lemma deliver_lines_line:
  assumes "CHR 0x0A \<notin> set l" and "l \<noteq> []" and "last l \<noteq> CHR 0x0D"
  shows "deliver_lines cb s (l @ CHR 0x0A # rest) = deliver_lines cb (cb s l) rest"
  using assms
  by (subst deliver_lines.simps) (simp add: find_newline substr_def)

lemma handleClient_two_lines:
  assumes "CHR 0x0A \<notin> set b" "b \<noteq> []" "last b \<noteq> CHR 0x0D" "CHR 0x00 \<notin> set b"
    and "CHR 0x0A \<notin> set l" "l \<noteq> []" "last l \<noteq> CHR 0x0D" "CHR 0x00 \<notin> set l"
  shows "IpcServer_handleClient cb s [] [b @ [CHR 0x0A], l @ [CHR 0x0A]] = cb (cb s b) l"
proof -
  have e: "deliver_lines cb s' [] = (s', [])" for s'
    by (subst deliver_lines.simps) (simp add: str_find_char_def)
  have tb: "takeWhile (\<lambda>c. c \<noteq> CHR 0x00) (b @ [CHR 0x0A]) = b @ [CHR 0x0A]"
    using assms(4) by (induction b) auto
  have tl: "takeWhile (\<lambda>c. c \<noteq> CHR 0x00) (l @ [CHR 0x0A]) = l @ [CHR 0x0A]"
    using assms(8) by (induction l) auto
  show ?thesis
    using deliver_lines_line [OF assms(1,2,3), of cb s "[]"]
      deliver_lines_line [OF assms(5,6,7), of cb "cb s b" "[]"]
    by (simp add: tb tl e)
qed


text \<open>
  A malformed line followed by a second line on a connection served by
  \<open>IpcServer::handleClient\<close>, with a callback that records what it is given: both lines
  reach the callback. Neither decoder accepts the first line.
\<close>

theorem C7_counterexample:
  \<open>parse_message ''garbage'' = None
   \<and> process_message sample_stod ControllerState_initial ''garbage''
     = Some (ControllerState_initial,
             create_error_ack ''Error: Invalid JSON: missing opening brace'')
   \<and> IpcServer_handleClient (\<lambda>seen message. seen @ [message]) [] []
        [''garbage'' @ [CHR 0x0A], ''{"version":"v0","type":"get_telemetry"}'' @ [CHR 0x0A]]
     = [''garbage'', ''{"version":"v0","type":"get_telemetry"}'']\<close>
proof -
  have a: \<open>parse_message ''garbage'' = None\<close>
    by code_simp
  have b: \<open>process_message sample_stod ControllerState_initial ''garbage''
     = Some (ControllerState_initial,
             create_error_ack ''Error: Invalid JSON: missing opening brace'')\<close>
    by code_simp
  have c: \<open>IpcServer_handleClient (\<lambda>seen message. seen @ [message]) [] []
        [''garbage'' @ [CHR 0x0A], ''{"version":"v0","type":"get_telemetry"}'' @ [CHR 0x0A]]
     = [''garbage'', ''{"version":"v0","type":"get_telemetry"}'']\<close>
    by code_simp
  show ?thesis
    using a b c by blast
qed

text \<open>
  Claim C7, as amended. In \<open>handle_client\<close> of main.cpp: when the text received so far
  (the buffered rest and the new data) is a sequence of complete lines that
  \<open>parse_message\<close> decodes, followed by a complete line that it rejects, the function
  returns with the connection closed for invalid JSON; the responses sent are exactly
  the responses to the lines before the rejected one (nothing is sent for the rejected
  line), the state is the state after those lines, and neither the rest of the buffer
  nor any later data has any effect. \<open>IpcServer::handleClient\<close> does not decode: it hands
  each complete, non-empty line to the callback and goes on with the rest of the buffer
  and with the data received later, whatever the line was.
\<close>

theorem C7_invalid_line_closes:
  \<open>(list_all2 (\<lambda>l m. CHR 0x0A \<notin> set l \<and> parse_message l = Some m) gs ms
      \<and> CHR 0x0A \<notin> set b \<and> parse_message b = None
      \<and> incomplete @ takeWhile (\<lambda>c. c \<noteq> CHR 0x00) buffer = unlines gs @ b @ CHR 0x0A # rest
      \<longrightarrow>
       handle_client stod now st incomplete (buffer # chunks)
         = (fst (answer_all stod now st ms), snd (answer_all stod now st ms), InvalidJson))
   \<and> (CHR 0x0A \<notin> set l \<and> l \<noteq> [] \<and> last l \<noteq> CHR 0x0D \<longrightarrow>
       deliver_lines cb s (l @ CHR 0x0A # rest) = deliver_lines cb (cb s l) rest)
   \<and> (CHR 0x0A \<notin> set b \<and> b \<noteq> [] \<and> last b \<noteq> CHR 0x0D \<and> CHR 0x00 \<notin> set b
        \<and> CHR 0x0A \<notin> set l \<and> l \<noteq> [] \<and> last l \<noteq> CHR 0x0D \<and> CHR 0x00 \<notin> set l \<longrightarrow>
       IpcServer_handleClient cb s [] [b @ [CHR 0x0A], l @ [CHR 0x0A]] = cb (cb s b) l)\<close>
proof -
  have main: \<open>list_all2 (\<lambda>l m. CHR 0x0A \<notin> set l \<and> parse_message l = Some m) gs ms
      \<and> CHR 0x0A \<notin> set b \<and> parse_message b = None
      \<and> incomplete @ takeWhile (\<lambda>c. c \<noteq> CHR 0x00) buffer = unlines gs @ b @ CHR 0x0A # rest
      \<longrightarrow>
       handle_client stod now st incomplete (buffer # chunks)
         = (fst (answer_all stod now st ms), snd (answer_all stod now st ms), InvalidJson)\<close>
    using handle_client_until_invalid [of gs ms b incomplete buffer rest stod now st chunks]
    by blast
  have line: \<open>CHR 0x0A \<notin> set l \<and> l \<noteq> [] \<and> last l \<noteq> CHR 0x0D \<longrightarrow>
       deliver_lines cb s (l @ CHR 0x0A # rest) = deliver_lines cb (cb s l) rest\<close>
    using deliver_lines_line [of l cb s rest] by blast
  have later: \<open>CHR 0x0A \<notin> set b \<and> b \<noteq> [] \<and> last b \<noteq> CHR 0x0D \<and> CHR 0x00 \<notin> set b
        \<and> CHR 0x0A \<notin> set l \<and> l \<noteq> [] \<and> last l \<noteq> CHR 0x0D \<and> CHR 0x00 \<notin> set l \<longrightarrow>
       IpcServer_handleClient cb s [] [b @ [CHR 0x0A], l @ [CHR 0x0A]] = cb (cb s b) l\<close>
    using handleClient_two_lines [of b l cb s] by blast
  show ?thesis
    by (rule conjI [OF main], rule conjI [OF line], rule later)
qed

theorem C7_invalid_line_closes_witness:
  \<open>handle_client sample_stod 0 ServerState_initial []
      [''{"version":"v0","type":"set_mode","payload":{"mode":"ACTIVE"}}'' @ [CHR 0x0A]
         @ ''garbage'' @ [CHR 0x0A]
         @ ''{"version":"v0","type":"set_mode","payload":{"mode":"IDLE"}}'' @ [CHR 0x0A],
       ''{"version":"v0","type":"set_targets","payload":{"target_abv":42.5}}'' @ [CHR 0x0A]]
     = (ServerState_initial \<lparr> srv_mode := ''ACTIVE'' \<rparr>,
        [SentAck \<lparr> ack_command = ''set_mode'', ack_status = ''ok'',
             ack_message = Some ''Mode set to ACTIVE'' \<rparr>],
        InvalidJson)\<close>
proof -
  let ?g = \<open>''{"version":"v0","type":"set_mode","payload":{"mode":"ACTIVE"}}''\<close>
  let ?m = \<open>\<lparr> msg_version = ''v0'', msg_type = ''set_mode'',
             payload_json = ''{"mode":"ACTIVE"}'' \<rparr>\<close>
  let ?rest = \<open>''{"version":"v0","type":"set_mode","payload":{"mode":"IDLE"}}'' @ [CHR 0x0A]\<close>
  have g: \<open>parse_message ?g = Some ?m\<close>
    by code_simp
  have b: \<open>parse_message ''garbage'' = None\<close>
    by code_simp
  have p: \<open>parse_set_mode ''{"mode":"ACTIVE"}'' = Some \<lparr> sm_mode = ''ACTIVE'' \<rparr>\<close>
    by code_simp
  have r: \<open>process_command sample_stod 0 ServerState_initial ?m
      = (ServerState_initial \<lparr> srv_mode := ''ACTIVE'' \<rparr>,
         SentAck \<lparr> ack_command = ''set_mode'', ack_status = ''ok'',
             ack_message = Some ''Mode set to ACTIVE'' \<rparr>)\<close>
    using process_command_set_mode [of ?m \<open>''ACTIVE''\<close> sample_stod 0 ServerState_initial] p
    by (simp add: PROTOCOL_VERSION_def MessageType_SET_MODE_def Mode_IDLE_def Mode_ACTIVE_def
        AckStatus_OK_def)
  have hyps: \<open>list_all2 (\<lambda>l m. CHR 0x0A \<notin> set l \<and> parse_message l = Some m) [?g] [?m]
      \<and> CHR 0x0A \<notin> set ''garbage'' \<and> parse_message ''garbage'' = None
      \<and> [] @ takeWhile (\<lambda>c. c \<noteq> CHR 0x00) (?g @ [CHR 0x0A] @ ''garbage'' @ [CHR 0x0A] @ ?rest)
          = unlines [?g] @ ''garbage'' @ CHR 0x0A # ?rest\<close>
    using g b by (simp add: unlines_def)
  have \<open>handle_client sample_stod 0 ServerState_initial []
      ((?g @ [CHR 0x0A] @ ''garbage'' @ [CHR 0x0A] @ ?rest)
       # [''{"version":"v0","type":"set_targets","payload":{"target_abv":42.5}}'' @ [CHR 0x0A]])
     = (fst (answer_all sample_stod 0 ServerState_initial [?m]),
        snd (answer_all sample_stod 0 ServerState_initial [?m]), InvalidJson)\<close>
    by (rule mp [OF C7_invalid_line_closes [of \<open>[?g]\<close> \<open>[?m]\<close> \<open>''garbage''\<close> \<open>[]\<close>
        \<open>?g @ [CHR 0x0A] @ ''garbage'' @ [CHR 0x0A] @ ?rest\<close> ?rest
        sample_stod 0 ServerState_initial
        \<open>[''{"version":"v0","type":"set_targets","payload":{"target_abv":42.5}}'' @ [CHR 0x0A]]\<close>,
        THEN conjunct1] hyps])
  then show ?thesis
    using r by (simp del: handle_client.simps)
qed


subsection \<open>Broadcast pass\<close>





subsection \<open>Telemetry frame\<close>
























text \<open>The boundary: the scaled reading 327.67 is the sentinel value itself.\<close>

lemma sentinel_boundary:
  "static_cast_int16 (327.67 * 100) = Some INT16_MAX"
  by (simp add: static_cast_int16_def truncate_toward_zero_def INT16_MAX_def)


end
